theory Spec2Isabelle
  imports Main
begin

section \<open>The page: elements, persisted preferences, window effects\<close>

text \<open>
  The script of the documentation site (\<^verbatim>\<open>src/script.js\<close>) works on the browser's
  document, on \<^verbatim>\<open>localStorage\<close> and on the window. The document is modelled as a
  store of elements: the index of an element in the store is its identity, index 0 is
  \<^verbatim>\<open>document.documentElement\<close>, and the store lists the elements in tree order, so
  that a parent comes before its children. An element that has been removed from the
  tree stays in the store (a script may still hold a reference to it) but is no longer
  reachable from the root. An empty store is a document without a root element:
  \<^verbatim>\<open>document.documentElement\<close> is \<^verbatim>\<open>null\<close> there, and reading a property of it
  throws.

  Strings are byte lists holding UTF-8.
\<close>

record element =
  tag :: string
  parent :: "nat option"
  attrs :: "string \<rightharpoonup> string"
  classes :: "string list"
  display :: string
  textContent :: string
  offsetTop :: int

text \<open>
  \<open>classes\<close> is the element's \<^verbatim>\<open>classList\<close>, \<open>display\<close> is \<^verbatim>\<open>style.display\<close>
  (the inline style; the empty string when unset), \<open>textContent\<close> is the character data
  directly under the element, \<open>offsetTop\<close> is the layout offset the browser reports.
\<close>

datatype js_error = TypeError | SyntaxError

record scroll_request =
  scroll_top :: int
  behavior :: string

record page =
  nodes :: "element list"
  localStorage :: "string \<rightharpoonup> string"
  innerWidth :: int
  scrolls :: "scroll_request list"
  opened :: "(string \<times> string) list"
  observers :: "(nat list \<times> nat list) list"
  click_listeners :: "nat list"

text \<open>
  \<open>scrolls\<close> records the calls of \<^verbatim>\<open>window.scrollTo\<close>, \<open>opened\<close> the calls of
  \<^verbatim>\<open>window.open\<close> (URL and target), \<open>observers\<close> the intersection observers created
  (observed sections, captured navigation links), \<open>click_listeners\<close> the anchors that
  carry the smooth-scroll click listener.

  A function of the script either returns or throws; what it wrote before throwing stays
  written, so both outcomes carry the page.
\<close>

datatype outcome = Returned page | Thrown js_error page

fun state_of :: "outcome \<Rightarrow> page" where
  "state_of (Returned s) = s"
| "state_of (Thrown e s) = s"

fun and_then :: "outcome \<Rightarrow> (page \<Rightarrow> outcome) \<Rightarrow> outcome" where
  "and_then (Returned s) f = f s"
| "and_then (Thrown e s) f = Thrown e s"

subsection \<open>Tree structure and selectors\<close>

text \<open>An element is in the document when its chain of parents ends at the root.\<close>

function attached :: "element list \<Rightarrow> nat \<Rightarrow> bool" where
  "attached d i =
     (if i = 0 then d \<noteq> []
      else if length d \<le> i then False
      else (case parent (d ! i) of
              None \<Rightarrow> False
            | Some p \<Rightarrow> if p < i then attached d p else False))"
  by pat_completeness auto
termination
  by (relation "measure snd") auto

declare attached.simps [simp del]

function has_ancestor :: "element list \<Rightarrow> (element \<Rightarrow> bool) \<Rightarrow> nat \<Rightarrow> bool" where
  "has_ancestor d P i =
     (if length d \<le> i then False
      else (case parent (d ! i) of
              None \<Rightarrow> False
            | Some p \<Rightarrow> if p < i then (P (d ! p) \<or> has_ancestor d P p) else False))"
  by pat_completeness auto
termination
  by (relation "measure (\<lambda>(d, P, i). i)") auto

declare has_ancestor.simps [simp del]

text \<open>
  The selectors the script writes as literals: \<^verbatim>\<open>.c\<close>, \<^verbatim>\<open>[a]\<close>, a tag name,
  the descendant combinator \<^verbatim>\<open>A B\<close> with a simple selector on each side, and the
  selector list \<^verbatim>\<open>A, B\<close>.
\<close>

datatype simple_selector = Class string | Attr string | Tag string

datatype selector =
  Simple simple_selector
| Within simple_selector simple_selector
| Either selector selector

fun matches_simple :: "simple_selector \<Rightarrow> element \<Rightarrow> bool" where
  "matches_simple (Class c) e = (c \<in> set (classes e))"
| "matches_simple (Attr a) e = (attrs e a \<noteq> None)"
| "matches_simple (Tag t) e = (tag e = t)"

fun matches :: "element list \<Rightarrow> selector \<Rightarrow> nat \<Rightarrow> bool" where
  "matches d (Simple x) i = matches_simple x (d ! i)"
| "matches d (Within a b) i = (matches_simple b (d ! i) \<and> has_ancestor d (matches_simple a) i)"
| "matches d (Either x y) i = (matches d x i \<or> matches d y i)"

definition querySelectorAll :: "element list \<Rightarrow> selector \<Rightarrow> nat list" where
  "querySelectorAll d sel = filter (\<lambda>i. attached d i \<and> matches d sel i) [0..<length d]"

definition querySelector :: "element list \<Rightarrow> selector \<Rightarrow> nat option" where
  "querySelector d sel = (case querySelectorAll d sel of [] \<Rightarrow> None | i # _ \<Rightarrow> Some i)"

definition getElementById :: "element list \<Rightarrow> string \<Rightarrow> nat option" where
  "getElementById d x =
     (case filter (\<lambda>i. attached d i \<and> attrs (d ! i) ''id'' = Some x) [0..<length d] of
        [] \<Rightarrow> None
      | i # _ \<Rightarrow> Some i)"

subsection \<open>Element updates\<close>

definition update_at :: "nat \<Rightarrow> (element \<Rightarrow> element) \<Rightarrow> page \<Rightarrow> page" where
  "update_at i f s = s\<lparr>nodes := (nodes s)[i := f (nodes s ! i)]\<rparr>"

definition setAttribute :: "string \<Rightarrow> string \<Rightarrow> element \<Rightarrow> element" where
  "setAttribute name v e = e\<lparr>attrs := (attrs e)(name \<mapsto> v)\<rparr>"

text \<open>
  \<^verbatim>\<open>getAttribute(name)\<close> lowercases the name before the lookup (the store keeps attribute
  names in lower case) and answers \<^verbatim>\<open>null\<close>, here \<open>None\<close>, when the attribute is
  absent. The \<^verbatim>\<open>id\<close> property reads the attribute, the empty string when absent.
\<close>

definition ascii_lower :: "char \<Rightarrow> char" where
  "ascii_lower c =
     (if (65::nat) \<le> of_char c \<and> of_char c \<le> (90::nat) then char_of (of_char c + (32::nat)) else c)"

definition getAttribute :: "string \<Rightarrow> element \<Rightarrow> string option" where
  "getAttribute name e = attrs e (map ascii_lower name)"

definition element_id :: "element \<Rightarrow> string" where
  "element_id e = (case attrs e ''id'' of None \<Rightarrow> [] | Some v \<Rightarrow> v)"

definition set_display :: "string \<Rightarrow> element \<Rightarrow> element" where
  "set_display v e = e\<lparr>display := v\<rparr>"

text \<open>
  \<^verbatim>\<open>classList.toggle(c, force)\<close> adds the class when \<open>force\<close> holds and removes it
  otherwise; \<^verbatim>\<open>classList.toggle(c)\<close> removes it when present and adds it otherwise.
\<close>

definition toggle_force :: "string \<Rightarrow> bool \<Rightarrow> element \<Rightarrow> element" where
  "toggle_force c force e =
     (if force then (if c \<in> set (classes e) then e else e\<lparr>classes := classes e @ [c]\<rparr>)
      else e\<lparr>classes := removeAll c (classes e)\<rparr>)"

definition toggle_class :: "string \<Rightarrow> element \<Rightarrow> element" where
  "toggle_class c e = toggle_force c (c \<notin> set (classes e)) e"

section \<open>Theme management\<close>

definition prism_dark :: string where
  "prism_dark = ''https://cdnjs.cloudflare.com/ajax/libs/prism/1.29.0/themes/prism-tomorrow.min.css''"

definition prism_light :: string where
  "prism_light = ''https://cdnjs.cloudflare.com/ajax/libs/prism/1.29.0/themes/prism.min.css''"

text \<open>
  \<^verbatim>\<open>setTheme(theme)\<close>: the attribute and the persisted key are written first; the three
  elements are looked up next; then the branch on \<^verbatim>\<open>theme === 'dark'\<close> sets the icons'
  \<^verbatim>\<open>style.display\<close> (a missing icon is a dereference of \<^verbatim>\<open>null\<close>) and, when the
  stylesheet link exists, its \<^verbatim>\<open>href\<close>.
\<close>

definition set_icons :: "string \<Rightarrow> string \<Rightarrow> string \<Rightarrow> nat option \<Rightarrow> nat option \<Rightarrow> nat option
    \<Rightarrow> page \<Rightarrow> outcome" where
  "set_icons sun_display moon_display href sunIcon moonIcon prismTheme s =
     (case sunIcon of
        None \<Rightarrow> Thrown TypeError s
      | Some su \<Rightarrow>
          let s2 = update_at su (set_display sun_display) s in
          (case moonIcon of
             None \<Rightarrow> Thrown TypeError s2
           | Some mo \<Rightarrow>
               let s3 = update_at mo (set_display moon_display) s2 in
               Returned (case prismTheme of
                           None \<Rightarrow> s3
                         | Some p \<Rightarrow> update_at p (setAttribute ''href'' href) s3)))"

definition setTheme :: "string \<Rightarrow> page \<Rightarrow> outcome" where
  "setTheme theme s =
     (if nodes s = [] then Thrown TypeError s
      else
        let s1 = (update_at 0 (setAttribute ''data-theme'' theme) s)
                   \<lparr>localStorage := (localStorage s)(''theme'' \<mapsto> theme)\<rparr>;
            sunIcon = querySelector (nodes s1) (Simple (Class ''sun-icon''));
            moonIcon = querySelector (nodes s1) (Simple (Class ''moon-icon''));
            prismTheme = getElementById (nodes s1) ''prism-theme''
        in if theme = ''dark''
           then set_icons ''none'' ''block'' prism_dark sunIcon moonIcon prismTheme s1
           else set_icons ''block'' ''none'' prism_light sunIcon moonIcon prismTheme s1)"

definition toggleTheme :: "page \<Rightarrow> outcome" where
  "toggleTheme s =
     (if nodes s = [] then Thrown TypeError s
      else
        let currentTheme = getAttribute ''data-theme'' (nodes s ! 0);
            newTheme = (if currentTheme = Some ''dark'' then ''light'' else ''dark'')
        in setTheme newTheme s)"


section \<open>Language management\<close>

text \<open>
  Assigning \<^verbatim>\<open>el.textContent\<close> removes every child of the element from the tree and
  leaves the given string as its only content; assigning \<^verbatim>\<open>null\<close> leaves it empty.
\<close>

definition set_textContent :: "nat \<Rightarrow> string \<Rightarrow> element list \<Rightarrow> element list" where
  "set_textContent i v d =
     map (\<lambda>e. if parent e = Some i then e\<lparr>parent := None\<rparr> else e)
         (d[i := (d ! i)\<lparr>textContent := v\<rparr>])"

definition string_or_empty :: "string option \<Rightarrow> string" where
  "string_or_empty x = (case x of None \<Rightarrow> [] | Some v \<Rightarrow> v)"

definition show_lang :: "string \<Rightarrow> page \<Rightarrow> nat \<Rightarrow> page" where
  "show_lang lang s el =
     update_at el (\<lambda>e. set_display (if getAttribute ''data-lang'' e = Some lang then [] else ''none'') e) s"

definition localize :: "string \<Rightarrow> page \<Rightarrow> nat \<Rightarrow> page" where
  "localize lang s el =
     s\<lparr>nodes := set_textContent el
                   (string_or_empty (getAttribute (''data-'' @ lang) (nodes s ! el))) (nodes s)\<rparr>"

definition mark_button :: "string \<Rightarrow> page \<Rightarrow> nat \<Rightarrow> page" where
  "mark_button lang s btn =
     update_at btn (\<lambda>e. toggle_force ''active'' (element_id e = ''lang-'' @ lang @ ''-btn'') e) s"

text \<open>
  \<^verbatim>\<open>switchLanguage(lang)\<close>: each \<^verbatim>\<open>querySelectorAll\<close> takes its list from the document
  as it is when the call is made, and \<^verbatim>\<open>forEach\<close> then runs over that fixed list.
\<close>

definition switchLanguage :: "string \<Rightarrow> page \<Rightarrow> outcome" where
  "switchLanguage lang s =
     (if nodes s = [] then Thrown TypeError s
      else
        let s1 = (update_at 0 (setAttribute ''lang'' lang) s)
                   \<lparr>localStorage := (localStorage s)(''language'' \<mapsto> lang)\<rparr>;
            s2 = foldl (show_lang lang) s1
                   (querySelectorAll (nodes s1) (Simple (Attr ''data-lang'')));
            s3 = foldl (localize lang) s2
                   (querySelectorAll (nodes s2)
                      (Either (Simple (Attr ''data-hr'')) (Simple (Attr ''data-en''))));
            s4 = foldl (mark_button lang) s3
                   (querySelectorAll (nodes s3) (Within (Class ''lang-switcher-inline'') (Tag ''button'')))
        in Returned s4)"

section \<open>Sidebar and navigation\<close>

definition toggleSidebar :: "page \<Rightarrow> outcome" where
  "toggleSidebar s =
     (case getElementById (nodes s) ''sidebar'' of
        None \<Rightarrow> Thrown TypeError s
      | Some sb \<Rightarrow> Returned (update_at sb (toggle_class ''active'') s))"

definition nav_links :: "element list \<Rightarrow> nat list" where
  "nav_links d = querySelectorAll d (Within (Class ''sidebar-nav'') (Tag ''a''))"


text \<open>
  The observer's callback, for one batch of entries (target, \<^verbatim>\<open>isIntersecting\<close>) and the
  links captured by \<^verbatim>\<open>initNavigation\<close>. A section without an \<^verbatim>\<open>id\<close> gives the string
  \<^verbatim>\<open>#null\<close>.
\<close>

definition highlight :: "nat list \<Rightarrow> page \<Rightarrow> nat \<times> bool \<Rightarrow> page" where
  "highlight navLinks s entry =
     (if snd entry then
        let ident = (case getAttribute ''id'' (nodes s ! fst entry) of None \<Rightarrow> ''null'' | Some v \<Rightarrow> v)
        in foldl (\<lambda>s link. update_at link
                    (\<lambda>e. toggle_force ''active'' (getAttribute ''href'' e = Some (''#'' @ ident)) e) s)
             s navLinks
      else s)"

definition observer_callback :: "nat list \<Rightarrow> (nat \<times> bool) list \<Rightarrow> page \<Rightarrow> page" where
  "observer_callback navLinks entries s = foldl (highlight navLinks) s entries"

section \<open>The assistant link\<close>

text \<open>
  The values \<^verbatim>\<open>askAI\<close> can meet. \<open>Obj\<close> is an object written as a literal, with its own
  properties; such an object inherits from \<^verbatim>\<open>Object.prototype\<close>, and \<open>Builtin k\<close> is
  the value found there under the name \<open>k\<close> (a built-in function, or
  \<^verbatim>\<open>Object.prototype\<close> itself for \<^verbatim>\<open>__proto__\<close>).
\<close>

datatype js_value = Undefined | Null | Str string | Obj "(string \<times> js_value) list" | Builtin string

text \<open>
  What the browser provides and the script does not define: the properties of strings
  and of built-in objects, the string a built-in object converts to, and the selector
  engine on a selector given as a string (the element found, \<open>None\<close> for no match, or
  an error for a string that is no selector).
\<close>

record host =
  foreign_get :: "js_value \<Rightarrow> string \<Rightarrow> js_error + js_value"
  foreign_string :: "string \<Rightarrow> string"
  select :: "string \<Rightarrow> element list \<Rightarrow> js_error + nat option"

definition object_prototype_names :: "string list" where
  "object_prototype_names =
     [''constructor'', ''hasOwnProperty'', ''isPrototypeOf'', ''propertyIsEnumerable'',
      ''toLocaleString'', ''toString'', ''valueOf'', ''__proto__'',
      ''__defineGetter__'', ''__defineSetter__'', ''__lookupGetter__'', ''__lookupSetter__'']"

definition js_get :: "host \<Rightarrow> js_value \<Rightarrow> string \<Rightarrow> js_error + js_value" where
  "js_get h v k =
     (case v of
        Undefined \<Rightarrow> Inl TypeError
      | Null \<Rightarrow> Inl TypeError
      | Obj ps \<Rightarrow>
          (case map_of ps k of
             Some x \<Rightarrow> Inr x
           | None \<Rightarrow> Inr (if k \<in> set object_prototype_names then Builtin k else Undefined))
      | _ \<Rightarrow> foreign_get h v k)"

fun truthy :: "js_value \<Rightarrow> bool" where
  "truthy Undefined = False"
| "truthy Null = False"
| "truthy (Str s) = (s \<noteq> [])"
| "truthy (Obj ps) = True"
| "truthy (Builtin b) = True"

fun to_string :: "host \<Rightarrow> js_value \<Rightarrow> string" where
  "to_string h Undefined = ''undefined''"
| "to_string h Null = ''null''"
| "to_string h (Str s) = s"
| "to_string h (Obj ps) = ''[object Object]''"
| "to_string h (Builtin b) = foreign_string h b"

text \<open>
  \<^verbatim>\<open>encodeURIComponent\<close> keeps the letters, the digits and \<^verbatim>\<open>- _ . ! ~ * ' ( )\<close>, and
  writes every other byte of the UTF-8 form as \<^verbatim>\<open>%\<close> and two upper-case hex digits.
\<close>

definition unreserved :: "char \<Rightarrow> bool" where
  "unreserved c =
     (c \<in> set (''ABCDEFGHIJKLMNOPQRSTUVWXYZabcdefghijklmnopqrstuvwxyz0123456789'' @ ''-_.!~*()'' @ [CHR 0x27]))"

definition hex_digit :: "nat \<Rightarrow> char" where
  "hex_digit n = ''0123456789ABCDEF'' ! n"

definition percent :: "char \<Rightarrow> string" where
  "percent c = [CHR ''%'', hex_digit (of_char c div 16), hex_digit (of_char c mod 16)]"

definition encodeURIComponent :: "string \<Rightarrow> string" where
  "encodeURIComponent str = concat (map (\<lambda>c. if unreserved c then [c] else percent c) str)"

definition prompts_hr :: "(string \<times> js_value) list" where
  "prompts_hr =
     [(''general'', Str (''Zdravo BornAI! '' @ [CHR 0xC5, CHR 0xBD] @ ''elim nau'' @ [CHR 0xC4, CHR 0x8D]
          @ ''iti vi'' @ [CHR 0xC5, CHR 0xA1] @ ''e o SudReg API-ju. Mo'' @ [CHR 0xC5, CHR 0xBE] @ ''e''
          @ [CHR 0xC5, CHR 0xA1] @ '' li mi pomo'' @ [CHR 0xC4, CHR 0x87] @ ''i?'')),
      (''beginner_concepts'', Str (''Pojasni mi osnovne koncepte API-ja (HTTP, JSON, Endpoint) na jednostavan na''
          @ [CHR 0xC4, CHR 0x8D] @ ''in.'')),
      (''auth_help'', Str (''Trebam pomo'' @ [CHR 0xC4, CHR 0x87]
          @ '' oko OAuth2 autentifikacije za SudReg API. Kako to funkcionira?'')),
      (''endpoints'', Str (''Mo'' @ [CHR 0xC5, CHR 0xBE] @ ''e'' @ [CHR 0xC5, CHR 0xA1]
          @ '' li mi objasniti razli'' @ [CHR 0xC4, CHR 0x8D] @ ''ite krajnje to'' @ [CHR 0xC4, CHR 0x8D]
          @ ''ke (endpoints) SudReg API-ja i '' @ [CHR 0xC5, CHR 0xA1] @ ''to koja radi?''))]"

definition prompts_en :: "(string \<times> js_value) list" where
  "prompts_en =
     [(''general'', Str ''Hello BornAI! I want to learn more about the SudReg API. Can you help me?''),
      (''beginner_concepts'', Str ''Explain the basic API concepts (HTTP, JSON, Endpoint) to me in a simple way.''),
      (''auth_help'', Str ''I need help with OAuth2 authentication for the SudReg API. How does it work?''),
      (''endpoints'', Str ''Can you explain the different SudReg API endpoints and what each one does?'')]"

definition prompts :: js_value where
  "prompts = Obj [(''hr'', Obj prompts_hr), (''en'', Obj prompts_en)]"

definition bornAI :: string where
  "bornAI = ''https://bornai.com.hr/?q=''"

definition window_open :: "string \<Rightarrow> string \<Rightarrow> page \<Rightarrow> page" where
  "window_open url target s = s\<lparr>opened := opened s @ [(url, target)]\<rparr>"

text \<open>
  \<^verbatim>\<open>askAI(context)\<close>: the language is the root's \<^verbatim>\<open>lang\<close>, or \<^verbatim>\<open>'hr'\<close> when that
  is empty; \<^verbatim>\<open>prompts[lang][context] || prompts[lang].general\<close> reads a property of
  \<^verbatim>\<open>prompts[lang]\<close>, which throws when \<^verbatim>\<open>prompts[lang]\<close> is undefined.
\<close>

definition askAI :: "host \<Rightarrow> string \<Rightarrow> page \<Rightarrow> outcome" where
  "askAI h context s =
     (if nodes s = [] then Thrown TypeError s
      else
        let l = string_or_empty (getAttribute ''lang'' (nodes s ! 0));
            lang = (if l = [] then ''hr'' else l)
        in (case js_get h prompts lang of
              Inl e \<Rightarrow> Thrown e s
            | Inr table \<Rightarrow>
                (case js_get h table context of
                   Inl e \<Rightarrow> Thrown e s
                 | Inr p \<Rightarrow>
                     (case (if truthy p then Inr p else js_get h table ''general'') of
                        Inl e \<Rightarrow> Thrown e s
                      | Inr prompt \<Rightarrow>
                          Returned (window_open (bornAI @ encodeURIComponent (to_string h prompt))
                                      ''_blank'' s)))))"

section \<open>Initialization\<close>


record click_event =
  defaultPrevented :: bool

text \<open>
  The click listener of a sidebar link; \<open>anchor\<close> is \<^verbatim>\<open>this\<close>. A link without
  \<^verbatim>\<open>href\<close> hands \<^verbatim>\<open>null\<close> to \<^verbatim>\<open>querySelector\<close>, which reads it as the string
  \<^verbatim>\<open>null\<close>.
\<close>

definition targetId :: "element \<Rightarrow> string" where
  "targetId anchor = (case getAttribute ''href'' anchor of None \<Rightarrow> ''null'' | Some v \<Rightarrow> v)"

definition sidebar_link_click :: "host \<Rightarrow> nat \<Rightarrow> click_event \<Rightarrow> page \<Rightarrow> click_event \<times> outcome" where
  "sidebar_link_click h anchor e s =
     (let e1 = e\<lparr>defaultPrevented := True\<rparr>
      in (e1,
          case select h (targetId (nodes s ! anchor)) (nodes s) of
            Inl err \<Rightarrow> Thrown err s
          | Inr None \<Rightarrow> Returned s
          | Inr (Some targetElement) \<Rightarrow>
              let s1 = s\<lparr>scrolls := scrolls s @
                          [\<lparr>scroll_top = offsetTop (nodes s ! targetElement) - 80,
                            behavior = ''smooth''\<rparr>]\<rparr>
              in if innerWidth s1 \<le> 1024 then toggleSidebar s1 else Returned s1))"




section \<open>Example pages\<close>

text \<open>
  A small page with the elements the script looks for: the two theme icons, the
  stylesheet link, a sidebar with two links (the second points at no section), a section
  with one block per language, and the two language buttons. It has no persisted
  preferences and no theme attribute, as on a first visit before the script has run.
\<close>

definition elt :: "string \<Rightarrow> nat option \<Rightarrow> (string \<rightharpoonup> string) \<Rightarrow> string list \<Rightarrow> element" where
  "elt t p a c = \<lparr>tag = t, parent = p, attrs = a, classes = c, display = [], textContent = [], offsetTop = 0\<rparr>"

definition sample_nodes :: "element list" where
  "sample_nodes =
     [elt ''html'' None Map.empty [],
      elt ''span'' (Some 0) Map.empty [''sun-icon''],
      elt ''span'' (Some 0) Map.empty [''moon-icon''],
      elt ''link'' (Some 0) [''id'' \<mapsto> ''prism-theme''] [],
      elt ''nav'' (Some 0) [''id'' \<mapsto> ''sidebar''] [''sidebar-nav''],
      (elt ''a'' (Some 4) [''href'' \<mapsto> ''#overview'', ''data-hr'' \<mapsto> ''Pregled'', ''data-en'' \<mapsto> ''Overview''] [])
        \<lparr>textContent := ''Pregled''\<rparr>,
      elt ''a'' (Some 4) [''href'' \<mapsto> ''#missing'', ''data-hr'' \<mapsto> ''Ostalo''] [],
      (elt ''section'' (Some 0) [''id'' \<mapsto> ''overview''] [''section''])\<lparr>offsetTop := 640\<rparr>,
      elt ''div'' (Some 7) [''data-lang'' \<mapsto> ''hr''] [],
      elt ''div'' (Some 7) [''data-lang'' \<mapsto> ''en''] [],
      elt ''div'' (Some 0) Map.empty [''lang-switcher-inline''],
      elt ''button'' (Some 10) [''id'' \<mapsto> ''lang-hr-btn''] [''active''],
      elt ''button'' (Some 10) [''id'' \<mapsto> ''lang-en-btn''] []]"

definition sample_page :: page where
  "sample_page = \<lparr>nodes = sample_nodes, localStorage = Map.empty, innerWidth = 800, scrolls = [],
      opened = [], observers = [], click_listeners = []\<rparr>"

text \<open>The same page once \<^verbatim>\<open>setTheme('dark')\<close> has run.\<close>

definition dark_page :: page where
  "dark_page = state_of (setTheme ''dark'' sample_page)"

text \<open>
  The first page with \<^verbatim>\<open>data-theme="dark"\<close> on the root and nothing else done: nothing
  persisted, no icon display set.
\<close>

definition static_dark_page :: page where
  "static_dark_page = update_at 0 (setAttribute ''data-theme'' ''dark'') sample_page"

text \<open>The first page with \<^verbatim>\<open>lang="de"\<close> on the root, and with \<^verbatim>\<open>lang="en"\<close>.\<close>

definition german_page :: page where
  "german_page = update_at 0 (setAttribute ''lang'' ''de'') sample_page"

definition english_page :: page where
  "english_page = update_at 0 (setAttribute ''lang'' ''en'') sample_page"

text \<open>
  A browser for the examples. Its selector engine knows the selectors \<^verbatim>\<open>#name\<close> with a
  name of letters, digits, \<^verbatim>\<open>-\<close> and \<^verbatim>\<open>_\<close> that does not start with a digit, finds
  the first element of the document with that \<^verbatim>\<open>id\<close>, and reports every other string
  as a syntax error. Its built-in objects have no properties beyond those of
  \<^verbatim>\<open>Object.prototype\<close> and convert to one fixed string.
\<close>

definition name_char :: "char \<Rightarrow> bool" where
  "name_char c =
     (c \<in> set (''ABCDEFGHIJKLMNOPQRSTUVWXYZabcdefghijklmnopqrstuvwxyz0123456789'' @ ''-_''))"

definition id_select :: "string \<Rightarrow> element list \<Rightarrow> js_error + nat option" where
  "id_select sel d =
     (case sel of
        [] \<Rightarrow> Inl SyntaxError
      | c # name \<Rightarrow>
          if c = CHR ''#'' \<and> name \<noteq> [] \<and> list_all name_char name \<and> hd name \<notin> set ''0123456789''
          then Inr (getElementById d name)
          else Inl SyntaxError)"

definition example_host :: host where
  "example_host =
     \<lparr>foreign_get = (\<lambda>v k. Inr (if k \<in> set object_prototype_names then Builtin k else Undefined)),
      foreign_string = (\<lambda>b. ''function () { [native code] }''),
      select = id_select\<rparr>"

section \<open>Vocabulary of the properties\<close>

text \<open>An element is shown when its inline \<^verbatim>\<open>display\<close> is not \<^verbatim>\<open>none\<close>.\<close>

definition shown :: "element \<Rightarrow> bool" where
  "shown e = (display e \<noteq> ''none'')"

text \<open>
  Two stores have the same frame when they agree on what the lookups of the script
  depend on: the tree, the classes, the tags and the \<^verbatim>\<open>id\<close> attributes.
\<close>

definition same_frame :: "element list \<Rightarrow> element list \<Rightarrow> bool" where
  "same_frame d' d \<longleftrightarrow>
     length d' = length d \<and>
     (\<forall>i<length d. parent (d' ! i) = parent (d ! i) \<and> classes (d' ! i) = classes (d ! i) \<and>
        tag (d' ! i) = tag (d ! i) \<and> attrs (d' ! i) ''id'' = attrs (d ! i) ''id'')"

text \<open>The page \<^verbatim>\<open>setTheme\<close> leaves when both icons exist.\<close>

definition setTheme_result :: "string \<Rightarrow> nat \<Rightarrow> nat \<Rightarrow> nat option \<Rightarrow> page \<Rightarrow> page" where
  "setTheme_result t su mo pr s =
     (let s1 = (update_at 0 (setAttribute ''data-theme'' t) s)\<lparr>localStorage := (localStorage s)(''theme'' \<mapsto> t)\<rparr>;
          s3 = update_at mo (set_display (if t = ''dark'' then ''block'' else ''none''))
                 (update_at su (set_display (if t = ''dark'' then ''none'' else ''block'')) s1)
      in case pr of None \<Rightarrow> s3
         | Some p \<Rightarrow> update_at p (setAttribute ''href'' (if t = ''dark'' then prism_dark else prism_light)) s3)"

text \<open>What \<^verbatim>\<open>switchLanguage\<close> does to one content block and to one button.\<close>

definition show_elem :: "string \<Rightarrow> element \<Rightarrow> element" where
  "show_elem l e = set_display (if getAttribute ''data-lang'' e = Some l then [] else ''none'') e"

definition mark_elem :: "string \<Rightarrow> element \<Rightarrow> element" where
  "mark_elem l e = toggle_force ''active'' (element_id e = ''lang-'' @ l @ ''-btn'') e"

text \<open>The general prompt of a language, as the table has it.\<close>

definition general_prompt :: "string \<Rightarrow> string" where
  "general_prompt l = (case map_of (if l = ''en'' then prompts_en else prompts_hr) ''general'' of
      Some (Str p) \<Rightarrow> p | _ \<Rightarrow> [])"

section \<open>Lookups and updates\<close>

lemma attached_cong:
  assumes "length d' = length d" and "\<forall>i<length d. parent (d' ! i) = parent (d ! i)"
  shows "attached d' i = attached d i"
  using assms
proof (induction d i rule: attached.induct)
  case (1 d i)
  show ?case
  proof (cases "i = 0 \<or> length d \<le> i")
    case True
    with 1(2) show ?thesis by (auto simp: attached.simps [of d i] attached.simps [of d' i])
  next
    case False
    then have i: "i \<noteq> 0" "i < length d" by auto
    show ?thesis
    proof (cases "parent (d ! i)")
      case None
      with i 1(2,3) show ?thesis by (simp add: attached.simps [of d i] attached.simps [of d' i])
    next
      case (Some p)
      show ?thesis
      proof (cases "p < i")
        case True
        with i Some 1 have "attached d' p = attached d p" by simp
        with i Some True 1(2,3) show ?thesis
          by (simp add: attached.simps [of d i] attached.simps [of d' i])
      next
        case False
        with i Some 1(2,3) show ?thesis by (simp add: attached.simps [of d i] attached.simps [of d' i])
      qed
    qed
  qed
qed

lemma attached_less: "attached d i \<Longrightarrow> i < length d"
  by (subst (asm) attached.simps) (auto split: if_splits option.splits)

lemma same_frame_refl: "same_frame d d"
  by (simp add: same_frame_def)

lemma same_frame_trans: "same_frame d'' d' \<Longrightarrow> same_frame d' d \<Longrightarrow> same_frame d'' d"
  by (simp add: same_frame_def)

lemma nth_upd:
  "(d[i := f (d ! i)]) ! j = (if i = j \<and> j < length d then f (d ! j) else d ! j)"
  by (cases "i < length d") (auto simp: nth_list_update list_update_beyond)

lemma same_frame_update:
  assumes "parent (f (d ! i)) = parent (d ! i)" "classes (f (d ! i)) = classes (d ! i)"
    "tag (f (d ! i)) = tag (d ! i)" "attrs (f (d ! i)) ''id'' = attrs (d ! i) ''id''"
  shows "same_frame (d[i := f (d ! i)]) d"
  using assms by (simp add: same_frame_def nth_upd)

lemma same_frame_attached: "same_frame d' d \<Longrightarrow> attached d' i = attached d i"
  by (rule attached_cong) (simp_all add: same_frame_def)

lemma same_frame_class:
  assumes "same_frame d' d"
  shows "querySelectorAll d' (Simple (Class c)) = querySelectorAll d (Simple (Class c))"
proof -
  have len: "length d' = length d" using assms by (simp add: same_frame_def)
  have "filter (\<lambda>i. attached d' i \<and> matches d' (Simple (Class c)) i) [0..<length d] =
        filter (\<lambda>i. attached d i \<and> matches d (Simple (Class c)) i) [0..<length d]"
    using assms same_frame_attached [OF assms]
    by (intro filter_cong [OF refl]) (simp add: same_frame_def)
  then show ?thesis by (simp add: querySelectorAll_def len)
qed

lemma same_frame_id:
  assumes "same_frame d' d"
  shows "getElementById d' x = getElementById d x"
proof -
  have len: "length d' = length d" using assms by (simp add: same_frame_def)
  have "filter (\<lambda>i. attached d' i \<and> attrs (d' ! i) ''id'' = Some x) [0..<length d] =
        filter (\<lambda>i. attached d i \<and> attrs (d ! i) ''id'' = Some x) [0..<length d]"
    using assms same_frame_attached [OF assms]
    by (intro filter_cong [OF refl]) (simp add: same_frame_def)
  then show ?thesis by (simp add: getElementById_def len)
qed

lemma querySelector_less: "querySelector d sel = Some i \<Longrightarrow> i < length d"
proof -
  assume "querySelector d sel = Some i"
  then have "i \<in> set (querySelectorAll d sel)"
    by (auto simp: querySelector_def split: list.splits)
  then show ?thesis by (simp add: querySelectorAll_def)
qed


lemma nth_update_at:
  "nodes (update_at i f s) ! j = (if i = j \<and> j < length (nodes s) then f (nodes s ! j) else nodes s ! j)"
  by (simp add: update_at_def nth_upd)

lemma length_update_at [simp]: "length (nodes (update_at i f s)) = length (nodes s)"
  by (simp add: update_at_def)

lemma update_at_fields [simp]:
  "localStorage (update_at i f s) = localStorage s"
  "innerWidth (update_at i f s) = innerWidth s"
  "scrolls (update_at i f s) = scrolls s"
  "opened (update_at i f s) = opened s"
  "observers (update_at i f s) = observers s"
  "click_listeners (update_at i f s) = click_listeners s"
  by (simp_all add: update_at_def)

lemma setAttribute_fields [simp]:
  "parent (setAttribute n v e) = parent e"
  "classes (setAttribute n v e) = classes e"
  "tag (setAttribute n v e) = tag e"
  "display (setAttribute n v e) = display e"
  "textContent (setAttribute n v e) = textContent e"
  "offsetTop (setAttribute n v e) = offsetTop e"
  "attrs (setAttribute n v e) k = (if k = n then Some v else attrs e k)"
  by (simp_all add: setAttribute_def)

lemma set_display_fields [simp]:
  "parent (set_display v e) = parent e"
  "classes (set_display v e) = classes e"
  "tag (set_display v e) = tag e"
  "display (set_display v e) = v"
  "textContent (set_display v e) = textContent e"
  "offsetTop (set_display v e) = offsetTop e"
  "attrs (set_display v e) = attrs e"
  by (simp_all add: set_display_def)

lemma same_frame_querySelector:
  "same_frame d' d \<Longrightarrow> querySelector d' (Simple (Class c)) = querySelector d (Simple (Class c))"
  by (simp add: querySelector_def same_frame_class)

lemma frame_setAttribute:
  "n \<noteq> ''id'' \<Longrightarrow> same_frame (nodes (update_at i (setAttribute n v) s)) (nodes s)"
  by (simp add: update_at_def same_frame_update)

lemma frame_set_display: "same_frame (nodes (update_at i (set_display v) s)) (nodes s)"
  by (simp add: update_at_def same_frame_update)

lemma lookup_setAttribute [simp]:
  "n \<noteq> ''id'' \<Longrightarrow> querySelector (nodes (update_at i (setAttribute n v) s)) (Simple (Class c)) =
     querySelector (nodes s) (Simple (Class c))"
  "n \<noteq> ''id'' \<Longrightarrow> getElementById (nodes (update_at i (setAttribute n v) s)) x =
     getElementById (nodes s) x"
  by (simp_all add: same_frame_querySelector same_frame_id frame_setAttribute)

lemma lookup_set_display [simp]:
  "querySelector (nodes (update_at i (set_display v) s)) (Simple (Class c)) =
     querySelector (nodes s) (Simple (Class c))"
  "getElementById (nodes (update_at i (set_display v) s)) x = getElementById (nodes s) x"
  by (simp_all add: same_frame_querySelector same_frame_id frame_set_display)

lemma setTheme_returns:
  assumes "querySelector (nodes s) (Simple (Class ''sun-icon'')) = Some su"
    and "querySelector (nodes s) (Simple (Class ''moon-icon'')) = Some mo"
  shows "setTheme t s = Returned (setTheme_result t su mo (getElementById (nodes s) ''prism-theme'') s)"
proof -
  from assms(1) have ne: "nodes s \<noteq> []" using querySelector_less by fastforce
  show ?thesis
    using assms ne
    by (simp add: setTheme_def set_icons_def setTheme_result_def Let_def split: option.splits)
qed


lemma sample_lookup:
  "querySelector (nodes sample_page) (Simple (Class ''sun-icon'')) = Some 1"
  "querySelector (nodes sample_page) (Simple (Class ''moon-icon'')) = Some 2"
  "getElementById (nodes sample_page) ''prism-theme'' = Some 3"
  by code_simp+

lemma setTheme_result_lookup [simp]:
  "querySelector (nodes (setTheme_result t su mo pr s)) (Simple (Class c)) = querySelector (nodes s) (Simple (Class c))"
  "getElementById (nodes (setTheme_result t su mo pr s)) x = getElementById (nodes s) x"
  by (simp_all add: setTheme_result_def Let_def split: option.splits)

lemma setTheme_result_length [simp]:
  "length (nodes (setTheme_result t su mo pr s)) = length (nodes s)"
  by (simp add: setTheme_result_def Let_def split: option.splits)

lemma setTheme_result_display:
  "i < length (nodes s) \<Longrightarrow>
   display (nodes (setTheme_result t su mo pr s) ! i) =
     (if i = mo then (if t = ''dark'' then ''block'' else ''none'')
      else if i = su then (if t = ''dark'' then ''none'' else ''block'')
      else display (nodes s ! i))"
  by (cases "nodes s = []") (simp_all add: setTheme_result_def Let_def nth_update_at split: option.splits)

lemma setTheme_result_attrs:
  "i < length (nodes s) \<Longrightarrow>
   attrs (nodes (setTheme_result t su mo pr s) ! i) k =
     (if pr = Some i \<and> k = ''href'' then Some (if t = ''dark'' then prism_dark else prism_light)
      else if i = 0 \<and> k = ''data-theme'' then Some t
      else attrs (nodes s ! i) k)"
  by (cases "nodes s = []") (simp_all add: setTheme_result_def Let_def nth_update_at split: option.splits)

lemma setTheme_result_rest:
  "parent (nodes (setTheme_result t su mo pr s) ! i) = parent (nodes s ! i)"
  "tag (nodes (setTheme_result t su mo pr s) ! i) = tag (nodes s ! i)"
  "classes (nodes (setTheme_result t su mo pr s) ! i) = classes (nodes s ! i)"
  "textContent (nodes (setTheme_result t su mo pr s) ! i) = textContent (nodes s ! i)"
  "offsetTop (nodes (setTheme_result t su mo pr s) ! i) = offsetTop (nodes s ! i)"
  by (simp_all add: setTheme_result_def Let_def nth_update_at split: option.splits)

lemma setTheme_result_storage:
  "localStorage (setTheme_result t su mo pr s) = (localStorage s)(''theme'' \<mapsto> t)"
  "innerWidth (setTheme_result t su mo pr s) = innerWidth s"
  "scrolls (setTheme_result t su mo pr s) = scrolls s"
  "opened (setTheme_result t su mo pr s) = opened s"
  "observers (setTheme_result t su mo pr s) = observers s"
  "click_listeners (setTheme_result t su mo pr s) = click_listeners s"
  by (simp_all add: setTheme_result_def Let_def split: option.splits)

lemma setTheme_result_overwrite:
  "setTheme_result t su mo pr (setTheme_result t' su mo pr s) = setTheme_result t su mo pr s"
proof (rule page.equality)
  show "nodes (setTheme_result t su mo pr (setTheme_result t' su mo pr s)) = nodes (setTheme_result t su mo pr s)"
  proof (rule nth_equalityI)
    fix i
    assume "i < length (nodes (setTheme_result t su mo pr (setTheme_result t' su mo pr s)))"
    then have i: "i < length (nodes s)" by simp
    show "nodes (setTheme_result t su mo pr (setTheme_result t' su mo pr s)) ! i =
         nodes (setTheme_result t su mo pr s) ! i"
    proof (rule element.equality)
      show "attrs (nodes (setTheme_result t su mo pr (setTheme_result t' su mo pr s)) ! i) =
         attrs (nodes (setTheme_result t su mo pr s) ! i)"
        using i by (intro ext) (simp add: setTheme_result_attrs)
    qed (use i in \<open>simp_all add: setTheme_result_display setTheme_result_rest\<close>)
  qed simp
qed (simp_all add: setTheme_result_storage)

lemma setTheme_result_root:
  "nodes s \<noteq> [] \<Longrightarrow> getAttribute ''data-theme'' (nodes (setTheme_result t su mo pr s) ! 0) = Some t"
  by (simp add: getAttribute_def ascii_lower_def setTheme_result_attrs)

lemma setTheme_result_nonempty [simp]: "(nodes (setTheme_result t su mo pr s) = []) = (nodes s = [])"
  using setTheme_result_length [of t su mo pr s] unfolding length_0_conv [symmetric] by (simp del: length_0_conv)

lemma setTheme_result_fixed:
  assumes "nodes s \<noteq> []"
    and "getAttribute ''data-theme'' (nodes s ! 0) = Some t"
    and "localStorage s ''theme'' = Some t"
    and "display (nodes s ! su) = (if t = ''dark'' then ''none'' else ''block'')"
    and "display (nodes s ! mo) = (if t = ''dark'' then ''block'' else ''none'')"
    and "\<forall>p. pr = Some p \<longrightarrow>
           getAttribute ''href'' (nodes s ! p) = Some (if t = ''dark'' then prism_dark else prism_light)"
  shows "setTheme_result t su mo pr s = s"
proof (rule page.equality)
  show "localStorage (setTheme_result t su mo pr s) = localStorage s"
    using assms(3) by (auto simp: setTheme_result_storage)
  show "nodes (setTheme_result t su mo pr s) = nodes s"
  proof (rule nth_equalityI)
    fix i
    assume "i < length (nodes (setTheme_result t su mo pr s))"
    then have i: "i < length (nodes s)" by simp
    have a0: "attrs (nodes s ! 0) ''data-theme'' = Some t"
      using assms(2) by (simp add: getAttribute_def ascii_lower_def)
    have ap: "\<And>p. pr = Some p \<Longrightarrow> attrs (nodes s ! p) ''href'' = Some (if t = ''dark'' then prism_dark else prism_light)"
      using assms(6) by (simp add: getAttribute_def ascii_lower_def)
    show "nodes (setTheme_result t su mo pr s) ! i = nodes s ! i"
    proof (rule element.equality)
      show "attrs (nodes (setTheme_result t su mo pr s) ! i) = attrs (nodes s ! i)"
        using i a0 ap by (intro ext) (simp add: setTheme_result_attrs)
      show "display (nodes (setTheme_result t su mo pr s) ! i) = display (nodes s ! i)"
        using i assms(4,5) by (simp add: setTheme_result_display)
    qed (simp_all add: setTheme_result_rest)
  qed simp
qed (simp_all add: setTheme_result_storage)

section \<open>Language: the effect of the three loops\<close>

lemma foldl_update_at_length [simp]:
  "length (nodes (foldl (\<lambda>s el. update_at el f s) s L)) = length (nodes s)"
  by (induction L arbitrary: s) simp_all

lemma foldl_update_at_nth:
  assumes "\<And>e. f (f e) = f e"
  shows "nodes (foldl (\<lambda>s el. update_at el f s) s L) ! i =
           (if i \<in> set L \<and> i < length (nodes s) then f (nodes s ! i) else nodes s ! i)"
proof (induction L arbitrary: s)
  case Nil
  show ?case by simp
next
  case (Cons x L)
  show ?case by (simp add: Cons.IH nth_update_at assms)
qed

lemma foldl_update_at_fields [simp]:
  "localStorage (foldl (\<lambda>s el. update_at el f s) s L) = localStorage s"
  "innerWidth (foldl (\<lambda>s el. update_at el f s) s L) = innerWidth s"
  "scrolls (foldl (\<lambda>s el. update_at el f s) s L) = scrolls s"
  "opened (foldl (\<lambda>s el. update_at el f s) s L) = opened s"
  "observers (foldl (\<lambda>s el. update_at el f s) s L) = observers s"
  "click_listeners (foldl (\<lambda>s el. update_at el f s) s L) = click_listeners s"
  by (induction L arbitrary: s) simp_all

lemma set_textContent_length [simp]: "length (set_textContent i v d) = length d"
  by (simp add: set_textContent_def)

lemma set_textContent_nth:
  "j < length d \<Longrightarrow>
   set_textContent i v d ! j =
     (let e = (if i = j then (d ! j)\<lparr>textContent := v\<rparr> else d ! j)
      in if parent e = Some i then e\<lparr>parent := None\<rparr> else e)"
  by (simp add: set_textContent_def nth_list_update Let_def)

lemma localize_fields [simp]:
  "localStorage (localize l s el) = localStorage s"
  "innerWidth (localize l s el) = innerWidth s"
  "scrolls (localize l s el) = scrolls s"
  "opened (localize l s el) = opened s"
  "observers (localize l s el) = observers s"
  "click_listeners (localize l s el) = click_listeners s"
  "length (nodes (localize l s el)) = length (nodes s)"
  by (simp_all add: localize_def)

lemma localize_nth:
  assumes "j < length (nodes s)"
  shows "attrs (nodes (localize l s el) ! j) = attrs (nodes s ! j)"
    and "classes (nodes (localize l s el) ! j) = classes (nodes s ! j)"
    and "tag (nodes (localize l s el) ! j) = tag (nodes s ! j)"
    and "display (nodes (localize l s el) ! j) = display (nodes s ! j)"
    and "offsetTop (nodes (localize l s el) ! j) = offsetTop (nodes s ! j)"
    and "textContent (nodes (localize l s el) ! j) =
           (if j = el then string_or_empty (getAttribute (''data-'' @ l) (nodes s ! j))
            else textContent (nodes s ! j))"
    and "parent (nodes (localize l s el) ! j) =
           (if parent (nodes s ! j) = Some el then None else parent (nodes s ! j))"
  using assms by (auto simp: localize_def set_textContent_nth Let_def)

lemma foldl_localize_fields [simp]:
  "localStorage (foldl (localize l) s L) = localStorage s"
  "innerWidth (foldl (localize l) s L) = innerWidth s"
  "scrolls (foldl (localize l) s L) = scrolls s"
  "opened (foldl (localize l) s L) = opened s"
  "observers (foldl (localize l) s L) = observers s"
  "click_listeners (foldl (localize l) s L) = click_listeners s"
  "length (nodes (foldl (localize l) s L)) = length (nodes s)"
  by (induction L arbitrary: s) simp_all

lemma foldl_localize_nth:
  assumes "j < length (nodes s)"
  shows "attrs (nodes (foldl (localize l) s L) ! j) = attrs (nodes s ! j)"
    and "classes (nodes (foldl (localize l) s L) ! j) = classes (nodes s ! j)"
    and "tag (nodes (foldl (localize l) s L) ! j) = tag (nodes s ! j)"
    and "display (nodes (foldl (localize l) s L) ! j) = display (nodes s ! j)"
    and "offsetTop (nodes (foldl (localize l) s L) ! j) = offsetTop (nodes s ! j)"
  using assms by (induction L arbitrary: s) (simp_all add: localize_nth)

lemma foldl_localize_text:
  assumes "j < length (nodes s)"
  shows "textContent (nodes (foldl (localize l) s L) ! j) =
           (if j \<in> set L then string_or_empty (getAttribute (''data-'' @ l) (nodes s ! j))
            else textContent (nodes s ! j))"
  using assms
proof (induction L arbitrary: s)
  case Nil
  show ?case by simp
next
  case (Cons x L)
  have "getAttribute (''data-'' @ l) (nodes (localize l s x) ! j) = getAttribute (''data-'' @ l) (nodes s ! j)"
    using Cons.prems by (simp add: getAttribute_def localize_nth)
  with Cons show ?case by (auto simp: localize_nth)
qed

lemma foldl_localize_parent:
  assumes "j < length (nodes s)"
  shows "parent (nodes (foldl (localize l) s L) ! j) =
           (case parent (nodes s ! j) of None \<Rightarrow> None
            | Some p \<Rightarrow> if p \<in> set L then None else Some p)"
  using assms
proof (induction L arbitrary: s)
  case Nil
  show ?case by (simp split: option.splits)
next
  case (Cons x L)
  then show ?case by (auto simp: localize_nth split: option.splits)
qed

lemma attached_shrinks:
  assumes "length d' = length d"
    and "\<forall>j<length d. parent (d' ! j) = parent (d ! j) \<or> parent (d' ! j) = None"
  shows "attached d' i \<Longrightarrow> attached d i"
  using assms
proof (induction d i rule: attached.induct)
  case (1 d i)
  show ?case
  proof (cases "i = 0")
    case True
    from 1(2) True have "d' \<noteq> []" by (simp add: attached.simps [of d' 0])
    with 1(3) have "d \<noteq> []" by auto
    with True show ?thesis by (simp add: attached.simps [of d 0])
  next
    case False
    from 1(2) have i: "i < length d"
      using 1(3) attached_less by fastforce
    from 1(2) False i 1(3) obtain p where p: "parent (d' ! i) = Some p" "p < i" "attached d' p"
      by (auto simp: attached.simps [of d' i] split: option.splits if_splits)
    with 1(4) i have pd: "parent (d ! i) = Some p" by auto
    from 1(1) [OF False _ pd p(2) p(3) 1(3,4)] i have "attached d p" by simp
    with False i pd p(2) show ?thesis by (simp add: attached.simps [of d i])
  qed
qed

lemma toggle_force_fields [simp]:
  "parent (toggle_force c b e) = parent e"
  "attrs (toggle_force c b e) = attrs e"
  "tag (toggle_force c b e) = tag e"
  "display (toggle_force c b e) = display e"
  "textContent (toggle_force c b e) = textContent e"
  "offsetTop (toggle_force c b e) = offsetTop e"
  by (simp_all add: toggle_force_def)

lemma toggle_force_idem: "toggle_force c b (toggle_force c b e) = toggle_force c b e"
  by (simp add: toggle_force_def)

lemma show_lang_eq: "show_lang l = (\<lambda>s x. update_at x (show_elem l) s)"
  by (intro ext) (simp add: show_lang_def update_at_def show_elem_def)

lemma mark_button_eq: "mark_button l = (\<lambda>s x. update_at x (mark_elem l) s)"
  by (intro ext) (simp add: mark_button_def update_at_def mark_elem_def)

lemma show_elem_idem: "show_elem l (show_elem l e) = show_elem l e"
  by (simp add: show_elem_def set_display_def getAttribute_def)

lemma mark_elem_idem: "mark_elem l (mark_elem l e) = mark_elem l e"
  by (simp add: mark_elem_def element_id_def toggle_force_idem)

lemma show_elem_fields [simp]:
  "parent (show_elem l e) = parent e"
  "attrs (show_elem l e) = attrs e"
  "tag (show_elem l e) = tag e"
  "classes (show_elem l e) = classes e"
  "textContent (show_elem l e) = textContent e"
  "display (show_elem l e) = (if getAttribute ''data-lang'' e = Some l then [] else ''none'')"
  by (simp_all add: show_elem_def)

lemma mark_elem_fields [simp]:
  "parent (mark_elem l e) = parent e"
  "attrs (mark_elem l e) = attrs e"
  "tag (mark_elem l e) = tag e"
  "display (mark_elem l e) = display e"
  "textContent (mark_elem l e) = textContent e"
  by (simp_all add: mark_elem_def)

lemma matches_attr_cong:
  assumes "attrs (d' ! i) = attrs (d ! i)"
  shows "matches d' (Simple (Attr a)) i = matches d (Simple (Attr a)) i"
    and "matches d' (Either (Simple (Attr a)) (Simple (Attr b))) i =
         matches d (Either (Simple (Attr a)) (Simple (Attr b))) i"
  using assms by simp_all

lemma in_querySelectorAll:
  "i \<in> set (querySelectorAll d sel) \<longleftrightarrow> i < length d \<and> attached d i \<and> matches d sel i"
  by (auto simp: querySelectorAll_def)

lemma switchLanguage_effect:
  assumes ne: "nodes s \<noteq> []"
  shows "\<exists>s'. switchLanguage l s = Returned s' \<and>
     localStorage s' = (localStorage s)(''language'' \<mapsto> l) \<and>
     length (nodes s') = length (nodes s) \<and>
     (\<forall>j<length (nodes s). attrs (nodes s' ! j) =
         (if j = 0 then (attrs (nodes s ! 0))(''lang'' \<mapsto> l) else attrs (nodes s ! j))) \<and>
     (\<forall>i\<in>set (querySelectorAll (nodes s') (Simple (Attr ''data-lang''))).
         display (nodes s' ! i) = (if getAttribute ''data-lang'' (nodes s' ! i) = Some l then [] else ''none'')) \<and>
     (\<forall>i\<in>set (querySelectorAll (nodes s') (Either (Simple (Attr ''data-hr'')) (Simple (Attr ''data-en'')))).
         textContent (nodes s' ! i) = string_or_empty (getAttribute (''data-'' @ l) (nodes s' ! i)) \<and>
         (\<forall>j<length (nodes s'). parent (nodes s' ! j) \<noteq> Some i))"
proof -
  let ?K = "Simple (Attr ''data-lang'')"
  let ?T = "Either (Simple (Attr ''data-hr'')) (Simple (Attr ''data-en''))"
  let ?B = "Within (Class ''lang-switcher-inline'') (Tag ''button'')"
  define s1 where "s1 = (update_at 0 (setAttribute ''lang'' l) s)\<lparr>localStorage := (localStorage s)(''language'' \<mapsto> l)\<rparr>"
  define L1 where "L1 = querySelectorAll (nodes s1) ?K"
  define s2 where "s2 = foldl (show_lang l) s1 L1"
  define L2 where "L2 = querySelectorAll (nodes s2) ?T"
  define s3 where "s3 = foldl (localize l) s2 L2"
  define L3 where "L3 = querySelectorAll (nodes s3) ?B"
  define s4 where "s4 = foldl (mark_button l) s3 L3"
  define n where "n = length (nodes s)"
  have run: "switchLanguage l s = Returned s4"
    using ne by (simp add: switchLanguage_def Let_def s1_def L1_def s2_def L2_def s3_def L3_def s4_def)
  have len: "length (nodes s1) = n" "length (nodes s2) = n" "length (nodes s3) = n" "length (nodes s4) = n"
    by (simp_all add: s1_def s2_def s3_def s4_def n_def show_lang_eq mark_button_eq)
  have n4: "\<And>j. nodes s4 ! j = (if j \<in> set L3 \<and> j < n then mark_elem l (nodes s3 ! j) else nodes s3 ! j)"
    unfolding s4_def mark_button_eq by (simp add: foldl_update_at_nth mark_elem_idem len)
  have n2: "\<And>j. nodes s2 ! j = (if j \<in> set L1 \<and> j < n then show_elem l (nodes s1 ! j) else nodes s1 ! j)"
    unfolding s2_def show_lang_eq by (simp add: foldl_update_at_nth show_elem_idem len)
  have at43: "\<And>j. attrs (nodes s4 ! j) = attrs (nodes s3 ! j)" by (simp add: n4)
  have at32: "\<And>j. j < n \<Longrightarrow> attrs (nodes s3 ! j) = attrs (nodes s2 ! j)"
    by (simp add: s3_def foldl_localize_nth len)
  have at21: "\<And>j. attrs (nodes s2 ! j) = attrs (nodes s1 ! j)" by (simp add: n2)
  have at41: "\<And>j. j < n \<Longrightarrow> attrs (nodes s4 ! j) = attrs (nodes s1 ! j)"
    by (simp add: at43 at32 at21)
  have at1: "\<And>j. j < n \<Longrightarrow> attrs (nodes s1 ! j) =
      (if j = 0 then (attrs (nodes s ! 0))(''lang'' \<mapsto> l) else attrs (nodes s ! j))"
    by (auto simp: s1_def nth_update_at n_def setAttribute_def)
  have p43: "\<And>j. parent (nodes s4 ! j) = parent (nodes s3 ! j)" by (simp add: n4)
  have p21: "\<And>j. parent (nodes s2 ! j) = parent (nodes s1 ! j)" by (simp add: n2)
  have p32: "\<And>j. j < n \<Longrightarrow> parent (nodes s3 ! j) =
      (case parent (nodes s2 ! j) of None \<Rightarrow> None | Some p \<Rightarrow> if p \<in> set L2 then None else Some p)"
    by (simp add: s3_def foldl_localize_parent len)
  have a43: "\<And>i. attached (nodes s4) i = attached (nodes s3) i"
    by (rule attached_cong) (simp_all add: len p43)
  have a32: "\<And>i. attached (nodes s3) i \<Longrightarrow> attached (nodes s2) i"
    by (rule attached_shrinks [of "nodes s3"]) (auto simp: len p32 split: option.splits)
  have a21: "\<And>i. attached (nodes s2) i = attached (nodes s1) i"
    by (rule attached_cong) (simp_all add: len p21)
  have storage: "localStorage s4 = (localStorage s)(''language'' \<mapsto> l)"
    by (simp add: s4_def s3_def s2_def s1_def show_lang_eq mark_button_eq)
  have vis: "display (nodes s4 ! i) = (if getAttribute ''data-lang'' (nodes s4 ! i) = Some l then [] else ''none'')"
    if "i \<in> set (querySelectorAll (nodes s4) ?K)" for i
  proof -
    from that have i: "i < n" "attached (nodes s4) i" "attrs (nodes s4 ! i) ''data-lang'' \<noteq> None"
      by (simp_all add: in_querySelectorAll len)
    then have "attached (nodes s1) i" using a43 a32 a21 by blast
    with i have "i \<in> set L1" by (simp add: L1_def in_querySelectorAll len at41)
    then have "display (nodes s2 ! i) = (if getAttribute ''data-lang'' (nodes s1 ! i) = Some l then [] else ''none'')"
      using i(1) by (simp add: n2)
    moreover have "display (nodes s4 ! i) = display (nodes s2 ! i)"
      using i(1) by (simp add: n4 s3_def foldl_localize_nth len)
    ultimately show ?thesis using i(1) by (simp add: getAttribute_def at41)
  qed
  have loc: "textContent (nodes s4 ! i) = string_or_empty (getAttribute (''data-'' @ l) (nodes s4 ! i)) \<and>
         (\<forall>j<length (nodes s4). parent (nodes s4 ! j) \<noteq> Some i)"
    if "i \<in> set (querySelectorAll (nodes s4) ?T)" for i
  proof -
    from that have i: "i < n" "attached (nodes s4) i" "matches (nodes s4) ?T i"
      by (simp_all add: in_querySelectorAll len)
    then have "attached (nodes s2) i" using a43 a32 by blast
    moreover have "matches (nodes s2) ?T i"
      using i(1,3) by (simp add: at43 at32)
    ultimately have mem: "i \<in> set L2" using i(1) by (simp add: L2_def in_querySelectorAll len)
    have "textContent (nodes s4 ! i) = textContent (nodes s3 ! i)" by (simp add: n4)
    also have "\<dots> = string_or_empty (getAttribute (''data-'' @ l) (nodes s2 ! i))"
      using mem i(1) by (simp add: s3_def foldl_localize_text len)
    also have "\<dots> = string_or_empty (getAttribute (''data-'' @ l) (nodes s4 ! i))"
      using i(1) by (simp add: getAttribute_def at43 at32)
    finally have t: "textContent (nodes s4 ! i) = string_or_empty (getAttribute (''data-'' @ l) (nodes s4 ! i))" .
    have "parent (nodes s4 ! j) \<noteq> Some i" if "j < length (nodes s4)" for j
      using that mem by (auto simp: p43 p32 len split: option.splits)
    with t show ?thesis by blast
  qed
  show ?thesis
    using run storage len(4) at41 at1 vis loc unfolding n_def by (intro exI [of _ s4]) simp
qed

text \<open>The example page after \<^verbatim>\<open>switchLanguage('en')\<close>, evaluated.\<close>

lemma sample_en:
  "querySelectorAll (nodes (state_of (switchLanguage ''en'' sample_page))) (Simple (Attr ''data-lang'')) = [8, 9]"
  "map (\<lambda>i. display (nodes (state_of (switchLanguage ''en'' sample_page)) ! i)) [8, 9] = [''none'', []]"
  "map (\<lambda>i. textContent (nodes (state_of (switchLanguage ''en'' sample_page)) ! i)) [5, 6] = [''Overview'', []]"
  "map (\<lambda>i. classes (nodes (state_of (switchLanguage ''en'' sample_page)) ! i)) [11, 12] = [[], [''active'']]"
  by code_simp+


section \<open>The assistant link and the sidebar click: lemmas\<close>

text \<open>The encoding never produces a character that separates query parameters.\<close>

lemma hex_digit_range: "n < 16 \<Longrightarrow> hex_digit n \<in> set ''0123456789ABCDEF''"
  unfolding hex_digit_def by (rule nth_mem) simp

lemma percent_chars: "c \<in> set (percent x) \<Longrightarrow> c \<in> set ''%0123456789ABCDEF''"
proof -
  assume c: "c \<in> set (percent x)"
  have "(of_char x :: nat) < 256" by simp
  then have a: "(of_char x :: nat) div 16 < 16" and b: "(of_char x :: nat) mod 16 < 16" by presburger+
  from c have "c = CHR ''%'' \<or> c = hex_digit (of_char x div 16) \<or> c = hex_digit (of_char x mod 16)"
    by (simp add: percent_def)
  with hex_digit_range [OF a] hex_digit_range [OF b] show ?thesis by auto
qed

lemma encodeURIComponent_chars:
  "c \<in> set (encodeURIComponent str) \<Longrightarrow> unreserved c \<or> c \<in> set ''%0123456789ABCDEF''"
  by (auto simp: encodeURIComponent_def dest: percent_chars split: if_splits)

lemma encodeURIComponent_no_separator:
  "CHR ''&'' \<notin> set (encodeURIComponent str)" "CHR ''='' \<notin> set (encodeURIComponent str)"
  "CHR ''?'' \<notin> set (encodeURIComponent str)" "CHR ''#'' \<notin> set (encodeURIComponent str)"
  by (auto dest!: encodeURIComponent_chars simp: unreserved_def)

text \<open>
  The three ways of \<^verbatim>\<open>askAI\<close>: a language the table does not have throws; a topic key
  that is neither in the table nor inherited falls back to the general prompt; a topic
  key that names an inherited property is taken as the prompt.
\<close>

lemma js_get_prompts:
  "js_get h prompts ''hr'' = Inr (Obj prompts_hr)"
  "js_get h prompts ''en'' = Inr (Obj prompts_en)"
  "l \<noteq> ''hr'' \<Longrightarrow> l \<noteq> ''en'' \<Longrightarrow> l \<notin> set object_prototype_names \<Longrightarrow> js_get h prompts l = Inr Undefined"
  by (simp_all add: js_get_def prompts_def)

lemma askAI_unrecognized_language:
  assumes "nodes s \<noteq> []" and "getAttribute ''lang'' (nodes s ! 0) = Some l"
    and "l \<noteq> []" "l \<noteq> ''hr''" "l \<noteq> ''en''" "l \<notin> set object_prototype_names"
  shows "askAI h context s = Thrown TypeError s"
  using assms by (simp add: askAI_def Let_def string_or_empty_def js_get_prompts) (simp add: js_get_def)

lemma askAI_fallback_hr:
  assumes "nodes s \<noteq> []"
    and "string_or_empty (getAttribute ''lang'' (nodes s ! 0)) \<in> {[], ''hr''}"
    and "context \<notin> set [''general'', ''beginner_concepts'', ''auth_help'', ''endpoints'']"
    and "context \<notin> set object_prototype_names"
  shows "askAI h context s =
     Returned (window_open (bornAI @ encodeURIComponent (general_prompt ''hr'')) ''_blank'' s)"
proof -
  have lang: "(if string_or_empty (getAttribute ''lang'' (nodes s ! 0)) = [] then ''hr''
      else string_or_empty (getAttribute ''lang'' (nodes s ! 0))) = ''hr''"
    using assms(2) by auto
  have look: "js_get h (Obj prompts_hr) context = Inr Undefined"
    using assms(3,4) by (simp add: js_get_def prompts_hr_def)
  have gen: "js_get h (Obj prompts_hr) ''general'' = Inr (Str (general_prompt ''hr''))"
    by (simp add: js_get_def prompts_hr_def general_prompt_def)
  show ?thesis
    using assms(1) by (simp add: askAI_def Let_def lang js_get_prompts(1) look gen)
qed

lemma askAI_fallback_en:
  assumes "nodes s \<noteq> []"
    and "getAttribute ''lang'' (nodes s ! 0) = Some ''en''"
    and "context \<notin> set [''general'', ''beginner_concepts'', ''auth_help'', ''endpoints'']"
    and "context \<notin> set object_prototype_names"
  shows "askAI h context s =
     Returned (window_open (bornAI @ encodeURIComponent (general_prompt ''en'')) ''_blank'' s)"
proof -
  have look: "js_get h (Obj prompts_en) context = Inr Undefined"
    using assms(3,4) by (simp add: js_get_def prompts_en_def)
  have gen: "js_get h (Obj prompts_en) ''general'' = Inr (Str (general_prompt ''en''))"
    by (simp add: js_get_def prompts_en_def general_prompt_def)
  show ?thesis
    using assms(1,2) by (simp add: askAI_def Let_def string_or_empty_def js_get_prompts(2) look gen)
qed

lemma askAI_inherited_key:
  assumes "nodes s \<noteq> []" and "getAttribute ''lang'' (nodes s ! 0) = Some ''hr''"
  shows "askAI h ''toString'' s =
     Returned (window_open (bornAI @ encodeURIComponent (foreign_string h ''toString'')) ''_blank'' s)"
  using assms
  by (simp add: askAI_def Let_def string_or_empty_def js_get_prompts)
     (simp add: js_get_def prompts_hr_def object_prototype_names_def)

text \<open>
  A language outside the table reaches \<^verbatim>\<open>askAI\<close> through \<^verbatim>\<open>switchLanguage\<close>,
  which the startup listener calls with whatever is persisted.
\<close>

lemma askAI_after_switchLanguage:
  assumes "nodes s \<noteq> []"
    and "l \<noteq> []" "l \<noteq> ''hr''" "l \<noteq> ''en''" "l \<notin> set object_prototype_names"
  shows "\<exists>s'. switchLanguage l s = Returned s' \<and> askAI h context s' = Thrown TypeError s'"
proof -
  from switchLanguage_effect [OF assms(1), of l] obtain s' where
    r: "switchLanguage l s = Returned s'"
    and len: "length (nodes s') = length (nodes s)"
    and at: "\<forall>j<length (nodes s). attrs (nodes s' ! j) =
         (if j = 0 then (attrs (nodes s ! 0))(''lang'' \<mapsto> l) else attrs (nodes s ! j))"
    by blast
  from len assms(1) have ne: "nodes s' \<noteq> []" by auto
  from at assms(1) have "getAttribute ''lang'' (nodes s' ! 0) = Some l"
    by (simp add: getAttribute_def ascii_lower_def)
  from askAI_unrecognized_language [OF ne this assms(2-5)] r show ?thesis by blast
qed

text \<open>The two sidebar links of the example page.\<close>

lemma sample_select:
  "select example_host (targetId (nodes sample_page ! 5)) (nodes sample_page) = Inr (Some 7)"
  "select example_host (targetId (nodes sample_page ! 6)) (nodes sample_page) = Inr None"
  "nav_links (nodes sample_page) = [5, 6]"
  by code_simp+

text \<open>A link whose \<^verbatim>\<open>href\<close> is no selector: the listener throws after preventing the default.\<close>

lemma click_syntax_error:
  assumes "select h (targetId (nodes s ! a)) (nodes s) = Inl err"
  shows "sidebar_link_click h a e s = (e\<lparr>defaultPrevented := True\<rparr>, Thrown err s)"
  using assms by (simp add: sidebar_link_click_def)

section \<open>Theme: the claims\<close>

text \<open>
  C1. For each of the two valid themes \<open>t\<close>, on a page that has the two theme icons
  (the first element of class \<^verbatim>\<open>sun-icon\<close> and the first of class \<^verbatim>\<open>moon-icon\<close>,
  two different elements), \<^verbatim>\<open>setTheme(t)\<close> returns, the persisted key \<^verbatim>\<open>theme\<close>
  then reads \<open>t\<close>, the same two elements are still the icons, and exactly one of them is
  shown: the sun for \<^verbatim>\<open>light\<close>, the moon for \<^verbatim>\<open>dark\<close>.
\<close>

theorem setTheme_persists_and_shows_matching_icon:
  assumes "t = ''dark'' \<or> t = ''light''"
    and "querySelector (nodes s) (Simple (Class ''sun-icon'')) = Some sunIcon"
    and "querySelector (nodes s) (Simple (Class ''moon-icon'')) = Some moonIcon"
    and "sunIcon \<noteq> moonIcon"
  shows "\<exists>s'. setTheme t s = Returned s' \<and> localStorage s' ''theme'' = Some t \<and>
           querySelector (nodes s') (Simple (Class ''sun-icon'')) = Some sunIcon \<and>
           querySelector (nodes s') (Simple (Class ''moon-icon'')) = Some moonIcon \<and>
           shown (nodes s' ! sunIcon) = (t = ''light'') \<and>
           shown (nodes s' ! moonIcon) = (t = ''dark'')"
proof -
  have su: "sunIcon < length (nodes s)" and mo: "moonIcon < length (nodes s)"
    using assms(2,3) by (auto dest: querySelector_less)
  let ?s' = "setTheme_result t sunIcon moonIcon (getElementById (nodes s) ''prism-theme'') s"
  have "setTheme t s = Returned ?s'" by (rule setTheme_returns [OF assms(2,3)])
  moreover have "localStorage ?s' ''theme'' = Some t"
    by (simp add: setTheme_result_storage)
  moreover have "querySelector (nodes ?s') (Simple (Class ''sun-icon'')) = Some sunIcon"
    "querySelector (nodes ?s') (Simple (Class ''moon-icon'')) = Some moonIcon"
    using assms(2,3) by simp_all
  moreover have "shown (nodes ?s' ! sunIcon) = (t = ''light'')" "shown (nodes ?s' ! moonIcon) = (t = ''dark'')"
    using assms(1,4) su mo by (auto simp: shown_def setTheme_result_display)
  ultimately show ?thesis by blast
qed

theorem setTheme_persists_and_shows_matching_icon_witness:
  "(''light'' = ''dark'' \<or> ''light'' = ''light'') \<and>
   querySelector (nodes sample_page) (Simple (Class ''sun-icon'')) = Some 1 \<and>
   querySelector (nodes sample_page) (Simple (Class ''moon-icon'')) = Some 2 \<and> (1::nat) \<noteq> 2 \<and>
   (\<exists>s'. setTheme ''light'' sample_page = Returned s' \<and> localStorage s' ''theme'' = Some ''light'' \<and>
           querySelector (nodes s') (Simple (Class ''sun-icon'')) = Some 1 \<and>
           querySelector (nodes s') (Simple (Class ''moon-icon'')) = Some 2 \<and>
           shown (nodes s' ! 1) \<and> \<not> shown (nodes s' ! 2))"
  using setTheme_persists_and_shows_matching_icon [of "''light''" sample_page 1 2] sample_lookup
  by simp

text \<open>
  C4, as stated: from a root without the theme attribute, \<^verbatim>\<open>toggleTheme()\<close> would call
  \<^verbatim>\<open>setTheme("light")\<close>. On the example page, which has no theme attribute, it leaves
  \<^verbatim>\<open>dark\<close> in the attribute and in the persisted key, which \<^verbatim>\<open>setTheme("light")\<close>
  does not.
\<close>

theorem toggleTheme_unset_counterexample:
  "getAttribute ''data-theme'' (nodes sample_page ! 0) = None \<and>
   getAttribute ''data-theme'' (nodes (state_of (toggleTheme sample_page)) ! 0) = Some ''dark'' \<and>
   localStorage (state_of (toggleTheme sample_page)) ''theme'' = Some ''dark'' \<and>
   toggleTheme sample_page \<noteq> setTheme ''light'' sample_page"
proof -
  have a: "getAttribute ''data-theme'' (nodes sample_page ! 0) = None" by code_simp
  have b: "getAttribute ''data-theme'' (nodes (state_of (toggleTheme sample_page)) ! 0) = Some ''dark''"
    by code_simp
  have c: "localStorage (state_of (toggleTheme sample_page)) ''theme'' = Some ''dark''"
    by code_simp
  have d: "localStorage (state_of (setTheme ''light'' sample_page)) ''theme'' = Some ''light''"
    by code_simp
  from c d have "toggleTheme sample_page \<noteq> setTheme ''light'' sample_page" by auto
  with a b c show ?thesis by simp
qed

text \<open>
  C4, amended: \<^verbatim>\<open>null === 'dark'\<close> is false, so the conditional takes its second
  branch: from a root without the theme attribute, \<^verbatim>\<open>toggleTheme()\<close> is
  \<^verbatim>\<open>setTheme("dark")\<close>.
\<close>

theorem toggleTheme_unset_gives_dark:
  assumes "getAttribute ''data-theme'' (nodes s ! 0) = None"
  shows "toggleTheme s = setTheme ''dark'' s"
  using assms by (cases "nodes s = []") (simp_all add: toggleTheme_def setTheme_def Let_def)

theorem toggleTheme_unset_gives_dark_witness:
  "getAttribute ''data-theme'' (nodes sample_page ! 0) = None \<and>
   toggleTheme sample_page = setTheme ''dark'' sample_page"
proof -
  have h: "getAttribute ''data-theme'' (nodes sample_page ! 0) = None" by code_simp
  show ?thesis using h toggleTheme_unset_gives_dark [OF h] by simp
qed

text \<open>
  C6, as stated: from every page whose root theme attribute is \<^verbatim>\<open>dark\<close> or
  \<^verbatim>\<open>light\<close>, two calls of \<^verbatim>\<open>toggleTheme()\<close> would restore the attribute, the persisted
  value and the icons. On the page that carries \<^verbatim>\<open>data-theme="dark"\<close> with nothing
  persisted and no icon display set, the two calls return and leave \<^verbatim>\<open>dark\<close>
  persisted and the sun icon hidden.
\<close>

theorem toggleTheme_twice_counterexample:
  "getAttribute ''data-theme'' (nodes static_dark_page ! 0) = Some ''dark'' \<and>
   localStorage static_dark_page ''theme'' = None \<and>
   display (nodes static_dark_page ! 1) = [] \<and>
   localStorage (state_of (and_then (toggleTheme static_dark_page) toggleTheme)) ''theme'' = Some ''dark'' \<and>
   display (nodes (state_of (and_then (toggleTheme static_dark_page) toggleTheme)) ! 1) = ''none''"
  by code_simp

text \<open>
  C6, amended: when the root theme attribute is \<open>t\<close>, one of \<^verbatim>\<open>dark\<close> and
  \<^verbatim>\<open>light\<close>, and the rest of the theme state already is the one of \<open>t\<close> (the
  persisted value is \<open>t\<close>, both icons exist and have the display of \<open>t\<close>, the
  stylesheet link, if there is one, has the address of \<open>t\<close>), two calls of
  \<^verbatim>\<open>toggleTheme()\<close> return and leave the page exactly as it was.
\<close>

theorem toggleTheme_twice_restores:
  assumes "t = ''dark'' \<or> t = ''light''"
    and "nodes s \<noteq> []"
    and "getAttribute ''data-theme'' (nodes s ! 0) = Some t"
    and "localStorage s ''theme'' = Some t"
    and "querySelector (nodes s) (Simple (Class ''sun-icon'')) = Some sunIcon"
    and "querySelector (nodes s) (Simple (Class ''moon-icon'')) = Some moonIcon"
    and "display (nodes s ! sunIcon) = (if t = ''dark'' then ''none'' else ''block'')"
    and "display (nodes s ! moonIcon) = (if t = ''dark'' then ''block'' else ''none'')"
    and "\<forall>p. getElementById (nodes s) ''prism-theme'' = Some p \<longrightarrow>
           getAttribute ''href'' (nodes s ! p) = Some (if t = ''dark'' then prism_dark else prism_light)"
  shows "and_then (toggleTheme s) toggleTheme = Returned s"
proof -
  let ?pr = "getElementById (nodes s) ''prism-theme''"
  define t' where "t' = (if t = ''dark'' then ''light'' else ''dark'')"
  let ?s1 = "setTheme_result t' sunIcon moonIcon ?pr s"
  have 1: "toggleTheme s = Returned ?s1"
    using assms(2,3) setTheme_returns [OF assms(5,6), of t']
    by (simp add: toggleTheme_def t'_def)
  have flip: "(if getAttribute ''data-theme'' (nodes ?s1 ! 0) = Some ''dark'' then ''light'' else ''dark'') = t"
    using assms(1) by (auto simp: setTheme_result_root [OF assms(2)] t'_def)
  have 2: "toggleTheme ?s1 = setTheme t ?s1"
    using assms(2) flip by (simp add: toggleTheme_def)
  have 3: "setTheme t ?s1 = Returned (setTheme_result t sunIcon moonIcon ?pr ?s1)"
    using setTheme_returns [of ?s1 sunIcon moonIcon t] assms(5,6) by simp
  have 4: "setTheme_result t sunIcon moonIcon ?pr ?s1 = setTheme_result t sunIcon moonIcon ?pr s"
    by (rule setTheme_result_overwrite)
  have 5: "setTheme_result t sunIcon moonIcon ?pr s = s"
    by (rule setTheme_result_fixed [OF assms(2,3,4,7,8,9)])
  show ?thesis by (simp add: 1 2 3 4 5)
qed

theorem toggleTheme_twice_restores_witness:
  "(''dark'' = ''dark'' \<or> ''dark'' = ''light'') \<and>
   nodes dark_page \<noteq> [] \<and>
   getAttribute ''data-theme'' (nodes dark_page ! 0) = Some ''dark'' \<and>
   localStorage dark_page ''theme'' = Some ''dark'' \<and>
   querySelector (nodes dark_page) (Simple (Class ''sun-icon'')) = Some 1 \<and>
   querySelector (nodes dark_page) (Simple (Class ''moon-icon'')) = Some 2 \<and>
   display (nodes dark_page ! 1) = ''none'' \<and>
   display (nodes dark_page ! 2) = ''block'' \<and>
   getElementById (nodes dark_page) ''prism-theme'' = Some 3 \<and>
   getAttribute ''href'' (nodes dark_page ! 3) = Some prism_dark \<and>
   and_then (toggleTheme dark_page) toggleTheme = Returned dark_page"
proof -
  have h: "nodes dark_page \<noteq> []"
    "getAttribute ''data-theme'' (nodes dark_page ! 0) = Some ''dark''"
    "localStorage dark_page ''theme'' = Some ''dark''"
    "querySelector (nodes dark_page) (Simple (Class ''sun-icon'')) = Some 1"
    "querySelector (nodes dark_page) (Simple (Class ''moon-icon'')) = Some 2"
    "display (nodes dark_page ! 1) = ''none''"
    "display (nodes dark_page ! 2) = ''block''"
    "getElementById (nodes dark_page) ''prism-theme'' = Some 3"
    "getAttribute ''href'' (nodes dark_page ! 3) = Some prism_dark"
    by code_simp+
  show ?thesis
    using h toggleTheme_twice_restores [of "''dark''" dark_page 1 2] by simp
qed




section \<open>Language and startup: the claims\<close>






section \<open>The assistant link: the claims\<close>

text \<open>
  C5 says that \<^verbatim>\<open>askAI\<close> falls back to the general prompt of the active language
  whenever the language or the topic key is missing or unrecognized, and never fails. On
  the page whose root has \<^verbatim>\<open>lang="de"\<close>, a value the table does not have,
  \<^verbatim>\<open>askAI(context)\<close> throws a \<^verbatim>\<open>TypeError\<close> for every topic key and opens nothing.
\<close>

theorem askAI_unrecognized_language_throws: "askAI h context german_page = Thrown TypeError german_page \<and>
   opened (state_of (askAI h context german_page)) = []"
proof -
  have "nodes german_page \<noteq> []" "getAttribute ''lang'' (nodes german_page ! 0) = Some ''de''"
    by (simp_all add: german_page_def sample_page_def sample_nodes_def update_at_def getAttribute_def
        ascii_lower_def)
  then have "askAI h context german_page = Thrown TypeError german_page"
    by (rule askAI_unrecognized_language) (simp_all add: object_prototype_names_def)
  then show ?thesis by (simp add: german_page_def sample_page_def)
qed

text \<open>
  C8. With \<^verbatim>\<open>lang="en"\<close> on the root, \<^verbatim>\<open>askAI("auth_help")\<close> returns having opened,
  with target \<^verbatim>\<open>_blank\<close>, the assistant address followed by \<^verbatim>\<open>?q=\<close> and the
  encoding of the English authentication prompt; the encoding is the string shown and
  contains no \<^verbatim>\<open>&\<close>, so \<^verbatim>\<open>q\<close> is the only parameter.
\<close>

theorem askAI_auth_help_en:
  assumes "nodes s \<noteq> []" and "getAttribute ''lang'' (nodes s ! 0) = Some ''en''"
  shows "askAI h ''auth_help'' s =
     Returned (s\<lparr>opened := opened s @
        [(''https://bornai.com.hr/?q='' @
            encodeURIComponent ''I need help with OAuth2 authentication for the SudReg API. How does it work?'',
          ''_blank'')]\<rparr>) \<and>
     encodeURIComponent ''I need help with OAuth2 authentication for the SudReg API. How does it work?'' =
       ''I%20need%20help%20with%20OAuth2%20authentication%20for%20the%20SudReg%20API.%20How%20does%20it%20work%3F'' \<and>
     CHR ''&'' \<notin> set (encodeURIComponent ''I need help with OAuth2 authentication for the SudReg API. How does it work?'')"
proof -
  have "askAI h ''auth_help'' s =
     Returned (s\<lparr>opened := opened s @
        [(''https://bornai.com.hr/?q='' @
            encodeURIComponent ''I need help with OAuth2 authentication for the SudReg API. How does it work?'',
          ''_blank'')]\<rparr>)"
    using assms
    by (simp add: askAI_def Let_def string_or_empty_def js_get_def prompts_def prompts_en_def
        window_open_def bornAI_def)
  moreover have "encodeURIComponent ''I need help with OAuth2 authentication for the SudReg API. How does it work?'' =
       ''I%20need%20help%20with%20OAuth2%20authentication%20for%20the%20SudReg%20API.%20How%20does%20it%20work%3F''"
    by code_simp
  ultimately show ?thesis by (simp add: encodeURIComponent_no_separator)
qed

theorem askAI_auth_help_en_witness: "nodes english_page \<noteq> [] \<and> getAttribute ''lang'' (nodes english_page ! 0) = Some ''en'' \<and>
   askAI example_host ''auth_help'' english_page =
     Returned (english_page\<lparr>opened :=
        [(''https://bornai.com.hr/?q=I%20need%20help%20with%20OAuth2%20authentication%20for%20the%20SudReg%20API.%20How%20does%20it%20work%3F'',
          ''_blank'')]\<rparr>)"
proof -
  have h: "nodes english_page \<noteq> []" "getAttribute ''lang'' (nodes english_page ! 0) = Some ''en''"
    by (simp_all add: english_page_def sample_page_def sample_nodes_def update_at_def getAttribute_def
        ascii_lower_def)
  have o: "opened english_page = []" by (simp add: english_page_def sample_page_def)
  show ?thesis using h o askAI_auth_help_en [OF h, of example_host] by simp
qed

section \<open>The sidebar click: the claims\<close>

text \<open>
  C7, as stated: every click on a sidebar link would trigger a smooth scroll. The second
  sidebar link of the example page points at \<^verbatim>\<open>#missing\<close>, which no element has; the
  listener records no scroll.
\<close>

theorem sidebar_click_always_scrolls_counterexample:
  "nav_links (nodes sample_page) = [5, 6] \<and>
   getAttribute ''href'' (nodes sample_page ! 6) = Some ''#missing'' \<and>
   scrolls (state_of (snd (sidebar_link_click example_host 6 \<lparr>defaultPrevented = False\<rparr> sample_page))) = []"
  by code_simp

text \<open>
  C7, amended: the listener always prevents the default jump; and whenever the link's
  \<^verbatim>\<open>href\<close>, taken as a selector, finds an element of the document, one smooth scroll
  is requested, to that element's \<^verbatim>\<open>offsetTop\<close> minus 80.
\<close>

theorem sidebar_click_prevents_and_scrolls:
  "defaultPrevented (fst (sidebar_link_click h a e s)) \<and>
   (\<forall>t. select h (targetId (nodes s ! a)) (nodes s) = Inr (Some t) \<longrightarrow>
      scrolls (state_of (snd (sidebar_link_click h a e s))) =
        scrolls s @ [\<lparr>scroll_top = offsetTop (nodes s ! t) - 80, behavior = ''smooth''\<rparr>])"
  by (auto simp: sidebar_link_click_def Let_def toggleSidebar_def split: option.splits)

theorem sidebar_click_prevents_and_scrolls_witness:
  "select example_host (targetId (nodes sample_page ! 5)) (nodes sample_page) = Inr (Some 7) \<and>
   defaultPrevented (fst (sidebar_link_click example_host 5 \<lparr>defaultPrevented = False\<rparr> sample_page)) \<and>
   scrolls (state_of (snd (sidebar_link_click example_host 5 \<lparr>defaultPrevented = False\<rparr> sample_page))) =
     [\<lparr>scroll_top = 560, behavior = ''smooth''\<rparr>]"
proof -
  have o: "scrolls sample_page = []" "offsetTop (nodes sample_page ! 7) = 640"
    by (simp_all add: sample_page_def sample_nodes_def elt_def)
  show ?thesis
    using sample_select(1) o sidebar_click_prevents_and_scrolls [of example_host 5 "\<lparr>defaultPrevented = False\<rparr>" sample_page]
    by simp
qed

text \<open>
  C10. When the link's \<^verbatim>\<open>href\<close> finds no element, the listener prevents the default
  and returns with the page unchanged: no scroll, and the sidebar as it was, whatever the
  width of the window (the witness has a window of width 800).
\<close>

theorem sidebar_click_without_target:
  assumes "select h (targetId (nodes s ! a)) (nodes s) = Inr None"
  shows "sidebar_link_click h a e s = (e\<lparr>defaultPrevented := True\<rparr>, Returned s)"
  using assms by (simp add: sidebar_link_click_def)

theorem sidebar_click_without_target_witness:
  "select example_host (targetId (nodes sample_page ! 6)) (nodes sample_page) = Inr None \<and>
   innerWidth sample_page \<le> 1024 \<and>
   sidebar_link_click example_host 6 \<lparr>defaultPrevented = False\<rparr> sample_page =
     (\<lparr>defaultPrevented = True\<rparr>, Returned sample_page)"
proof -
  have w: "innerWidth sample_page \<le> 1024" by (simp add: sample_page_def)
  show ?thesis
    using sample_select(2) w sidebar_click_without_target [OF sample_select(2), of "\<lparr>defaultPrevented = False\<rparr>"] by simp
qed

end
